theory Spec2Isabelle
  imports Main "HOL-Library.AList"
begin

section \<open>JavaScript values, objects and exceptions\<close>

text \<open>
  The start-model action (\<^verbatim>\<open>unicorn/frontend/browser/actions/StartModel.js\<close>) passes
  values between a database client, a file client and the user interface. A value it
  only hands on is opaque (type \<open>'v\<close>: a number, a boolean, a function); \<^verbatim>\<open>undefined\<close> and
  strings are told apart because the code produces them itself.

  An object has its own properties, in insertion order, and the properties it inherits
  from its prototype chain, nearest prototype first. \<^verbatim>\<open>k in o\<close> and \<^verbatim>\<open>o[k]\<close> look through
  both, and an own property hides an inherited one of the same name: an error whose
  class sets \<^verbatim>\<open>notFound\<close> on its prototype has the property, and every object made from
  a literal or by \<^verbatim>\<open>JSON.parse\<close> has \<^verbatim>\<open>constructor\<close> and \<^verbatim>\<open>toString\<close>.
\<close>

datatype 'v jsval = Undefined | Str string | Val 'v

datatype 'a object = Object (own: "(string \<times> 'a) list") (inherited: "(string \<times> 'a) list")

type_synonym 'v jsobj = "'v jsval object"

definition prop_in :: "string \<Rightarrow> 'a object \<Rightarrow> bool" where
  "prop_in k obj = (k \<in> set (map fst (own obj)) \<or> k \<in> set (map fst (inherited obj)))"

definition prop_lookup :: "'a object \<Rightarrow> string \<Rightarrow> 'a option" where
  "prop_lookup obj k =
     (case map_of (own obj) k of
        Some v \<Rightarrow> Some v
      | None \<Rightarrow> map_of (inherited obj) k)"

definition prop_get :: "'v jsobj \<Rightarrow> string \<Rightarrow> 'v jsval" where
  "prop_get obj k = (case prop_lookup obj k of None \<Rightarrow> Undefined | Some v \<Rightarrow> v)"

datatype js_exn = TypeError | RangeError | SyntaxError

text \<open>
  Numbers are IEEE doubles in the source. The model keeps a number as the expression
  that computes it, so no rounding is assumed: \<open>GetTime t\<close> is \<^verbatim>\<open>date.getTime()\<close> of a
  date whose time value is \<open>t\<close> (\<open>None\<close> for an invalid date, where the result is NaN),
  \<open>ToNumber v\<close> is the number a value coerces to (\<^verbatim>\<open>new Number(v).valueOf()\<close>).
\<close>

datatype 'v jsnum =
    Lit int
  | GetTime "int option"
  | ToNumber "'v jsval"
  | Div1000 "'v jsnum"
  | Minus "'v jsnum" "'v jsnum"
  | Times "'v jsnum" "'v jsnum"
  | Plus "'v jsnum" "'v jsnum"

text \<open>
  \<^verbatim>\<open>new Date(v)\<close>: the time value of the date, \<open>None\<close> for an invalid date. The
  conversion of a defined value is the built-in's (a parameter); \<^verbatim>\<open>new Date(undefined)\<close>
  is always an invalid date.
\<close>

definition new_Date :: "('v jsval \<Rightarrow> int option) \<Rightarrow> 'v jsval \<Rightarrow> int option" where
  "new_Date date_of v = (case v of Undefined \<Rightarrow> None | _ \<Rightarrow> date_of v)"

text \<open>\<^verbatim>\<open>date.toISOString()\<close> raises RangeError on an invalid date; the string it returns
  for a valid one is identified with the time value it renders.\<close>

definition toISOString :: "int option \<Rightarrow> js_exn + int" where
  "toISOString t = (case t of None \<Rightarrow> Inl RangeError | Some ms \<Rightarrow> Inr ms)"


section \<open>The start-model action\<close>

subsection \<open>Data\<close>

record model =
  modelId :: string
  filename :: string
  metric :: string
  timestampField :: string

text \<open>
  Modelled from the spec: the classes \<^verbatim>\<open>DatabaseGetError\<close>, \<^verbatim>\<open>DatabasePutError\<close> and
  \<^verbatim>\<open>FilesystemGetError\<close> of \<^verbatim>\<open>lib/UserError\<close>, which the action imports. They are the
  error kinds of the specification, each wrapping the collaborator's failure, and each
  an \<^verbatim>\<open>Error\<close> (the action tells them from results by \<^verbatim>\<open>instanceof Error\<close>).
\<close>

datatype 'v user_error =
    DatabaseGetError "'v jsobj"
  | DatabasePutError "'v jsobj"
  | FilesystemGetError "'v jsobj"

text \<open>What a channel delivers: an \<^verbatim>\<open>Error\<close> instance or a result.\<close>

datatype ('v, 'a) taken = IsError "'v user_error" | IsValue 'a

text \<open>The statistics of a file: an object whose properties are objects, one per metric
  (and, inherited, the functions of its prototype).\<close>

type_synonym 'v file_stats = "'v jsobj object"

text \<open>The value a promise is rejected with: whatever the code hands to \<^verbatim>\<open>reject\<close>.\<close>

datatype 'v reason =
    UserError "'v user_error"
  | StatsObject "'v file_stats"
  | CollaboratorError "'v jsobj"
  | Exception js_exn

datatype 'v promise = Pending | Resolved string | Rejected "'v reason"

text \<open>A promise settles once: later calls of \<^verbatim>\<open>resolve\<close> or \<^verbatim>\<open>reject\<close> change nothing.\<close>

fun settle :: "'v promise \<Rightarrow> 'v promise \<Rightarrow> 'v promise" where
  "settle Pending p = p"
| "settle q p = q"

text \<open>The row queued for the database for one record read from the file.\<close>

record 'v data_row =
  uid :: string
  metric_uid :: string
  rowid :: nat
  timestamp :: int
  metric_value :: "'v jsnum"
  display_value :: "'v jsnum"

text \<open>The variable \<^verbatim>\<open>rows\<close> of \<^verbatim>\<open>streamData\<close>: an array of rows, until the end of the
  data replaces it by its own \<^verbatim>\<open>JSON.stringify\<close>.\<close>

datatype 'v rows_var = RowArray "'v data_row list" | Stringified "'v rows_var"

datatype pid = StartModelPromise | StreamDataPromise

text \<open>
  What an observer of the action sees, in order: the calls to the collaborators, the
  actions executed and dispatched, the calls of \<^verbatim>\<open>resolve\<close> and \<^verbatim>\<open>reject\<close> and the
  exceptions nothing catches. Logging (\<^verbatim>\<open>log.debug\<close>, \<^verbatim>\<open>console.error\<close>) is left out.
\<close>

datatype 'v event =
    DbGetMetric string
  | FsGetStatistics string
  | DbPutMetric "'v jsobj"
  | DbGetMetricDatas string
  | FsGetData string
  | DbPutMetricDatas "'v rows_var"
  | SendData string "'v jsnum" "'v jsnum"
  | StopModel string
  | DispatchStartModelSuccess string
  | CreateModel string "'v jsobj"
  | ResolveCall pid string
  | RejectCall pid "'v reason"
  | Uncaught js_exn

text \<open>
  The action context: the model store, the helpers of \<^verbatim>\<open>lib/Utils\<close>, the built-ins
  \<^verbatim>\<open>JSON.parse\<close> and \<^verbatim>\<open>Date\<close>, and the two clients. A client's field gives the arguments
  it passes to the callback: \<open>(error, results)\<close> as options, where \<open>None\<close> is an absent
  error (null or undefined) and an undefined result, as a lookup that finds nothing
  gives; a sum where the code reads the result only when the error is absent. An error
  is an object. Every collaborator invokes its callback, and does so before the next
  collaborator is called. \<open>fs_getData\<close> gives the invocations of the callback of
  \<^verbatim>\<open>fileClient.getData\<close>, in order, each \<open>(error, data)\<close>. A parsed record is an object, the
  parsed cache a list of objects, the statistics of a file an object of objects.
  \<open>Object_prototype\<close> is what an object made from a literal inherits.

  A channel of js-csp hands the coroutine the value that was put on it. An exception
  raised in the coroutine or in a callback is caught by nothing in this file: it is
  recorded as \<open>Uncaught\<close>, and the code after it does not run.
\<close>

record 'v ctx =
  getModel :: "string \<Rightarrow> model"
  generateModelId :: "string \<Rightarrow> string \<Rightarrow> string"
  generateDataId :: "string \<Rightarrow> string \<Rightarrow> int option \<Rightarrow> string"
  JSON_parse :: "string \<Rightarrow> 'v jsobj option"
  JSON_parse_rows :: "string \<Rightarrow> 'v jsobj list option"
  Object_prototype :: "(string \<times> 'v jsval) list"
  date_of :: "'v jsval \<Rightarrow> int option"
  db_getMetric :: "string \<Rightarrow> 'v jsobj option \<times> 'v jsobj option"
  fs_getStatistics :: "string \<Rightarrow> 'v jsobj + 'v file_stats"
  db_putMetric :: "'v jsobj \<Rightarrow> 'v jsobj option"
  db_getMetricDatas :: "string \<Rightarrow> 'v jsobj + string"
  fs_getData :: "string \<Rightarrow> ('v jsobj option \<times> string option) list"
  db_putMetricDatas :: "'v rows_var \<Rightarrow> 'v jsobj option"


subsection \<open>The four channel helpers\<close>

text \<open>Each returns the collaborator call it makes and the value its channel delivers.\<close>

definition getMetricFromDatabase ::
  "'v ctx \<Rightarrow> model \<Rightarrow> 'v event list \<times> ('v, 'v jsobj option) taken" where
  "getMetricFromDatabase c m =
     (let metricId = generateModelId c (filename m) (metric m) in
      ([DbGetMetric metricId],
       (case db_getMetric c metricId of
          (Some error, results) \<Rightarrow>
            if \<not> prop_in ''notFound'' error then IsError (DatabaseGetError error)
            else IsValue results
        | (None, results) \<Rightarrow> IsValue results)))"

definition getMetricStatsFromFilesystem ::
  "'v ctx \<Rightarrow> model \<Rightarrow> 'v event list \<times> ('v, 'v file_stats) taken" where
  "getMetricStatsFromFilesystem c m =
     ([FsGetStatistics (filename m)],
      (case fs_getStatistics c (filename m) of
         Inl error \<Rightarrow> IsError (FilesystemGetError error)
       | Inr stats \<Rightarrow> IsValue stats))"

definition putMetricStatsIntoDatabase ::
  "'v ctx \<Rightarrow> 'v jsobj \<Rightarrow> 'v event list \<times> ('v, bool) taken" where
  "putMetricStatsIntoDatabase c metricObj =
     ([DbPutMetric metricObj],
      (case db_putMetric c metricObj of
         Some error \<Rightarrow> IsError (DatabasePutError error)
       | None \<Rightarrow> IsValue True))"

text \<open>\<open>Inl\<close>: \<^verbatim>\<open>JSON.parse\<close> raised inside the database callback, so nothing is ever put on
  the channel.\<close>

definition getMetricDataFromDatabase ::
  "'v ctx \<Rightarrow> model \<Rightarrow> 'v event list \<times> (js_exn + ('v, 'v jsobj list) taken)" where
  "getMetricDataFromDatabase c m =
     (let metric_uid = generateModelId c (filename m) (metric m) in
      ([DbGetMetricDatas metric_uid],
       (case db_getMetricDatas c metric_uid of
          Inl error \<Rightarrow> Inr (IsError (DatabaseGetError error))
        | Inr results \<Rightarrow>
            (case JSON_parse_rows c results of
               None \<Rightarrow> Inl SyntaxError
             | Some parsed \<Rightarrow> Inr (IsValue parsed)))))"


subsection \<open>streamData\<close>

record 'v stream =
  rows :: "'v rows_var"
  rowId :: nat
  promise :: "'v promise"
  events :: "'v event list"

definition emit :: "'v event \<Rightarrow> 'v stream \<Rightarrow> 'v stream" where
  "emit e s = s\<lparr>events := events s @ [e]\<rparr>"

definition resolve :: "string \<Rightarrow> 'v stream \<Rightarrow> 'v stream" where
  "resolve v s =
     s\<lparr>promise := settle (promise s) (Resolved v),
       events := events s @ [ResolveCall StreamDataPromise v]\<rparr>"

definition reject :: "'v reason \<Rightarrow> 'v stream \<Rightarrow> 'v stream" where
  "reject r s =
     s\<lparr>promise := settle (promise s) (Rejected r),
       events := events s @ [RejectCall StreamDataPromise r]\<rparr>"

text \<open>Lines 181 to 188: the row queued for the database, for a record whose timestamp
  has the time value \<open>ts\<close> and the ISO string \<open>isoString\<close>.\<close>

definition queued_row ::
  "'v ctx \<Rightarrow> model \<Rightarrow> nat \<Rightarrow> 'v jsobj \<Rightarrow> int option \<Rightarrow> int \<Rightarrow> 'v data_row" where
  "queued_row c m n row ts isoString =
     \<lparr>uid = generateDataId c (filename m) (metric m) ts,
      metric_uid = generateModelId c (filename m) (metric m),
      rowid = n,
      timestamp = isoString,
      metric_value = ToNumber (prop_get row (metric m)),
      display_value = ToNumber (prop_get row (metric m))\<rparr>"

text \<open>Lines 192 to 195: the sink event of a record read from the file.\<close>

definition sink_event :: "'v ctx \<Rightarrow> model \<Rightarrow> 'v jsobj \<Rightarrow> 'v event" where
  "sink_event c m row =
     SendData (modelId m)
       (Div1000 (GetTime (new_Date (date_of c) (prop_get row (timestampField m)))))
       (ToNumber (prop_get row (metric m)))"

text \<open>
  One invocation \<open>(error, data)\<close> of the callback handed to \<^verbatim>\<open>fileClient.getData\<close>
  (lines 163 to 209). An empty string is as falsy as \<^verbatim>\<open>null\<close>. After a failed
  \<^verbatim>\<open>JSON.parse\<close> the catch block rejects and the callback goes on with \<^verbatim>\<open>row\<close> undefined,
  so \<^verbatim>\<open>row[model.timestampField]\<close> raises TypeError. The object literal pushed on
  \<^verbatim>\<open>rows\<close> calls \<^verbatim>\<open>timestamp.toISOString()\<close>, which raises on an invalid date before anything
  is pushed; \<^verbatim>\<open>rows.push\<close> is not a function once \<^verbatim>\<open>rows\<close> is a string.
\<close>

definition getData_callback ::
  "'v ctx \<Rightarrow> model \<Rightarrow> 'v jsobj option \<Rightarrow> string option \<Rightarrow> 'v stream \<Rightarrow> 'v stream" where
  "getData_callback c m error data s =
     (case error of
        Some err \<Rightarrow> reject (CollaboratorError err) (emit (StopModel (modelId m)) s)
      | None \<Rightarrow>
         (case data of
            Some (ch # chs) \<Rightarrow>
              (case JSON_parse c (ch # chs) of
                 None \<Rightarrow> emit (Uncaught TypeError) (reject (Exception SyntaxError) s)
               | Some row \<Rightarrow>
                  (let ts = new_Date (date_of c) (prop_get row (timestampField m)) in
                   case toISOString ts of
                     Inl exn \<Rightarrow> emit (Uncaught exn) s
                   | Inr isoString \<Rightarrow>
                      (case rows s of
                         Stringified j \<Rightarrow> emit (Uncaught TypeError) s
                       | RowArray rs \<Rightarrow>
                           emit (sink_event c m row)
                             (s\<lparr>rows := RowArray (rs @ [queued_row c m (rowId s) row ts isoString]),
                                rowId := Suc (rowId s)\<rparr>))))
          | _ \<Rightarrow>
              (let json = Stringified (rows s);
                   s1 = emit (DbPutMetricDatas json) (s\<lparr>rows := json\<rparr>)
               in case db_putMetricDatas c json of
                    Some err \<Rightarrow> reject (CollaboratorError err) s1
                  | None \<Rightarrow> resolve (modelId m) s1)))"

text \<open>The invocations the file client makes, one after the other.\<close>

fun getData_callbacks ::
  "'v ctx \<Rightarrow> model \<Rightarrow> ('v jsobj option \<times> string option) list \<Rightarrow> 'v stream \<Rightarrow> 'v stream" where
  "getData_callbacks c m [] s = s"
| "getData_callbacks c m ((error, data) # rest) s =
     getData_callbacks c m rest (getData_callback c m error data s)"

text \<open>The sink event of one cached row (lines 149 to 154).\<close>

definition replay_row :: "'v ctx \<Rightarrow> model \<Rightarrow> 'v jsobj \<Rightarrow> 'v event" where
  "replay_row c m row =
     SendData (modelId m)
       (Div1000 (GetTime (new_Date (date_of c) (prop_get row (timestampField m)))))
       (ToNumber (prop_get row ''metric_value''))"

definition streamData :: "'v ctx \<Rightarrow> string \<Rightarrow> 'v stream" where
  "streamData c mId =
     (let m = getModel c mId;
          s0 = \<lparr>rows = RowArray [], rowId = 0, promise = Pending, events = []\<rparr>;
          (evs, metricData) = getMetricDataFromDatabase c m;
          s1 = s0\<lparr>events := evs\<rparr>
      in case metricData of
           Inl exn \<Rightarrow> emit (Uncaught exn) s1
         | Inr (IsError err) \<Rightarrow> reject (UserError err) s1
         | Inr (IsValue cached) \<Rightarrow>
             if length cached > 0
             then resolve (modelId m) (foldl (\<lambda>s row. emit (replay_row c m row) s) s1 cached)
             else getData_callbacks c m (fs_getData c (filename m))
                    (emit (FsGetData (filename m)) s1))"


text \<open>The events \<^verbatim>\<open>streamData\<close> has in its text: it calls neither \<^verbatim>\<open>getMetric\<close>,
  \<^verbatim>\<open>getStatistics\<close> nor \<^verbatim>\<open>putMetric\<close>, and settles no promise but its own.\<close>

fun stream_event :: "'v event \<Rightarrow> bool" where
  "stream_event (DbGetMetricDatas k) = True"
| "stream_event (FsGetData f) = True"
| "stream_event (DbPutMetricDatas json) = True"
| "stream_event (SendData mId t v) = True"
| "stream_event (StopModel mId) = True"
| "stream_event (ResolveCall p v) = (p = StreamDataPromise)"
| "stream_event (RejectCall p r) = (p = StreamDataPromise)"
| "stream_event (Uncaught exn) = True"
| "stream_event e = False"

text \<open>A record the callback gets through: a non-empty text that parses to a row whose
  timestamp field is a valid date, of time value \<open>ms\<close>.\<close>

definition readable_record :: "'v ctx \<Rightarrow> model \<Rightarrow> string \<Rightarrow> 'v jsobj \<times> int \<Rightarrow> bool" where
  "readable_record c m d p =
     (d \<noteq> [] \<and> JSON_parse c d = Some (fst p) \<and>
      new_Date (date_of c) (prop_get (fst p) (timestampField m)) = Some (snd p))"

text \<open>The rows queued for a run of such records, numbered from \<open>n\<close>.\<close>

fun queued_rows :: "'v ctx \<Rightarrow> model \<Rightarrow> nat \<Rightarrow> ('v jsobj \<times> int) list \<Rightarrow> 'v data_row list" where
  "queued_rows c m n [] = []"
| "queued_rows c m n ((row, ms) # rest) =
     queued_row c m n row (Some ms) ms # queued_rows c m (Suc n) rest"


subsection \<open>The exported action\<close>

record 'v run =
  trace :: "'v event list"
  outer :: "'v promise"
  inner :: "'v promise option"

text \<open>Lines 286 to 289: the model is announced and created, and \<^verbatim>\<open>streamData\<close> starts.
  Its promise is the return value of the coroutine, which nothing reads.\<close>

definition stats_ready :: "'v ctx \<Rightarrow> string \<Rightarrow> 'v event list \<Rightarrow> 'v jsobj \<Rightarrow> 'v run" where
  "stats_ready c mId evs stats =
     (let s = streamData c mId in
      \<lparr>trace = evs @ [DispatchStartModelSuccess mId, CreateModel mId stats] @ events s,
       outer = Pending,
       inner = Some (promise s)\<rparr>)"

definition stats_rejected :: "'v event list \<Rightarrow> 'v reason \<Rightarrow> 'v run" where
  "stats_rejected evs r =
     \<lparr>trace = evs @ [RejectCall StartModelPromise r], outer = Rejected r, inner = None\<rparr>"

text \<open>Line 246: \<^verbatim>\<open>metric && ('min' in metric) && ('max' in metric)\<close>, and the \<^verbatim>\<open>stats\<close>
  of lines 248 and 249 when it holds.\<close>

definition cached_bounds :: "'v ctx \<Rightarrow> 'v jsobj option \<Rightarrow> 'v jsobj option" where
  "cached_bounds c metricObj =
     (case metricObj of
        None \<Rightarrow> None
      | Some mo \<Rightarrow>
          if prop_in ''min'' mo \<and> prop_in ''max'' mo
          then Some (Object [(''min'', prop_get mo ''min''), (''max'', prop_get mo ''max'')]
                       (Object_prototype c))
          else None)"

text \<open>Lines 268 to 276: the object rebuilt for the database. Reading \<^verbatim>\<open>metric.uid\<close> of an
  undefined \<^verbatim>\<open>metric\<close> raises TypeError.\<close>

definition rebuilt_metric ::
  "'v ctx \<Rightarrow> 'v jsobj option \<Rightarrow> string \<Rightarrow> 'v jsobj \<Rightarrow> js_exn + 'v jsobj" where
  "rebuilt_metric c metricObj mId stats =
     (case metricObj of
        None \<Rightarrow> Inl TypeError
      | Some mo \<Rightarrow>
          Inr (Object
                 [(''uid'', prop_get mo ''uid''),
                  (''file_uid'', prop_get mo ''file_uid''),
                  (''model_uid'', Str mId),
                  (''name'', prop_get mo ''name''),
                  (''type'', prop_get mo ''type''),
                  (''min'', prop_get stats ''min''),
                  (''max'', prop_get stats ''max'')]
                 (Object_prototype c)))"

text \<open>An exception inside the coroutine is caught by nothing: the promise stays as it
  is and the action goes no further.\<close>

definition stats_threw :: "'v event list \<Rightarrow> js_exn \<Rightarrow> 'v run" where
  "stats_threw evs exn = \<lparr>trace = evs @ [Uncaught exn], outer = Pending, inner = None\<rparr>"

text \<open>
  The coroutine of the exported action (lines 237 to 291). The test
  \<^verbatim>\<open>model.metric in fileStats\<close> of line 256 and the read \<^verbatim>\<open>fileStats[model.metric]\<close> of line
  263 are one lookup; where the test fails, \<^verbatim>\<open>reject\<close> is called with \<^verbatim>\<open>fileStats\<close> itself.
\<close>

definition StartModel :: "'v ctx \<Rightarrow> string \<Rightarrow> 'v run" where
  "StartModel c mId =
     (let m = getModel c mId;
          (ev1, metricObj) = getMetricFromDatabase c m
      in case metricObj of
           IsError err \<Rightarrow> stats_rejected ev1 (UserError err)
         | IsValue mo \<Rightarrow>
            (case cached_bounds c mo of
               Some stats \<Rightarrow> stats_ready c mId ev1 stats
             | None \<Rightarrow>
               (let (ev2, fileStats) = getMetricStatsFromFilesystem c m in
                case fileStats of
                  IsError err \<Rightarrow> stats_rejected (ev1 @ ev2) (UserError err)
                | IsValue fstats \<Rightarrow>
                   (case prop_lookup fstats (metric m) of
                      None \<Rightarrow> stats_rejected (ev1 @ ev2) (StatsObject fstats)
                    | Some stats \<Rightarrow>
                       (case rebuilt_metric c mo mId stats of
                          Inl exn \<Rightarrow> stats_threw (ev1 @ ev2) exn
                        | Inr rebuilt \<Rightarrow>
                           (let (ev3, put) = putMetricStatsIntoDatabase c rebuilt in
                            case put of
                              IsError err \<Rightarrow>
                                stats_rejected (ev1 @ ev2 @ ev3) (UserError err)
                            | IsValue ok \<Rightarrow>
                                stats_ready c mId (ev1 @ ev2 @ ev3) stats))))))"


text \<open>The stream at the moment \<^verbatim>\<open>fileClient.getData\<close> is called (line 163): nothing is
  cached, nothing is queued, the promise is pending.\<close>

definition getData_called :: "'v ctx \<Rightarrow> model \<Rightarrow> 'v stream" where
  "getData_called c m =
     \<lparr>rows = RowArray [], rowId = 0, promise = Pending,
      events = [DbGetMetricDatas (generateModelId c (filename m) (metric m)),
                FsGetData (filename m)]\<rparr>"


section \<open>The chart widget\<close>

text \<open>
  The React component \<^verbatim>\<open>Chart\<close> keeps the state of its chart in instance fields, which
  are \<^verbatim>\<open>null\<close> (\<open>None\<close>) until the component is mounted. \<^verbatim>\<open>props.data\<close> is an array of
  points, each an array whose first element is the time of the point. The Dygraph
  object is the library's: the model keeps the data and the options it is built with.
\<close>

datatype 'v dygraph_option = DateWindow "'v jsnum \<times> 'v jsnum" | OptionValue "'v jsval"

datatype 'v dygraph = Dygraph "'v jsval list list" "(string \<times> 'v dygraph_option) list"

record 'v chart_props =
  data :: "'v jsval list list"
  options :: "(string \<times> 'v dygraph_option) list"

record 'v chart =
  dygraph :: "'v dygraph option"
  displayPointCount :: "'v jsval"
  chartBusy :: "bool option"
  chartRange :: "('v jsnum \<times> 'v jsnum) option"
  chartRangeWidth :: "'v jsnum option"
  chartScrollLock :: "bool option"

text \<open>How a method ends, and the fields of the component at that moment.\<close>

datatype 'a completion = Normal 'a | Throw js_exn 'a

text \<open>\<^verbatim>\<open>data[i][0]\<close>: past the end of \<^verbatim>\<open>data\<close>, \<^verbatim>\<open>data[i]\<close> is undefined and reading its
  element 0 raises TypeError; the element 0 of an empty point is undefined.\<close>

definition data_i_0 :: "'v jsval list list \<Rightarrow> nat \<Rightarrow> js_exn + 'v jsval" where
  "data_i_0 d i =
     (if i < length d
      then (case d ! i of [] \<Rightarrow> Inr Undefined | x # xs \<Rightarrow> Inr x)
      else Inl TypeError)"

text \<open>\<^verbatim>\<open>Object.assign(target, source)\<close>: every property of the source is set on the
  target.\<close>

definition object_assign :: "(string \<times> 'a) list \<Rightarrow> (string \<times> 'a) list \<Rightarrow> (string \<times> 'a) list" where
  "object_assign target source = foldl (\<lambda>t (k, v). AList.update k v t) target source"

definition chartInitalize ::
  "('v jsval \<Rightarrow> int option) \<Rightarrow> 'v chart_props \<Rightarrow> 'v chart \<Rightarrow> 'v chart completion" where
  "chartInitalize date this_props this =
     (case data_i_0 (data this_props) 0 of
        Inl exn \<Rightarrow> Throw exn this
      | Inr d0 \<Rightarrow>
         (case data_i_0 (data this_props) 1 of
            Inl exn \<Rightarrow> Throw exn this
          | Inr d1 \<Rightarrow>
             (let first = GetTime (new_Date date d0);
                  second = GetTime (new_Date date d1);
                  unit = Minus second first;
                  width = Times unit (ToNumber (displayPointCount this));
                  range = (first, Plus first width);
                  opts = object_assign [(''dateWindow'', DateWindow range)] (options this_props)
              in Normal (this\<lparr>chartRangeWidth := Some width,
                              chartRange := Some range,
                              dygraph := Some (Dygraph (data this_props) opts),
                              chartBusy := Some False\<rparr>))))"

text \<open>The fields as \<^verbatim>\<open>componentDidMount\<close> sets them before it looks at the data.\<close>

definition mounted :: "'v chart \<Rightarrow> 'v chart" where
  "mounted this =
     this\<lparr>chartBusy := Some False,
          chartRange := Some (Lit 0, Lit 0),
          chartRangeWidth := None,
          chartScrollLock := Some True\<rparr>"

definition componentDidMount ::
  "('v jsval \<Rightarrow> int option) \<Rightarrow> 'v chart_props \<Rightarrow> 'v chart \<Rightarrow> 'v chart completion" where
  "componentDidMount date this_props this =
     (if length (data this_props) \<noteq> 0
      then chartInitalize date this_props (mounted this)
      else Normal (mounted this))"


section \<open>A small installation, for concrete runs\<close>

text \<open>
  The opaque values of the runs: numbers, booleans, and functions and built-in objects by
  name, into which the action never looks.
\<close>

datatype atom = Num int | Bool bool | Ref string

text \<open>What a plain object inherits from \<^verbatim>\<open>Object.prototype\<close>, what a function adds to it,
  and what an error inherits from \<^verbatim>\<open>Error.prototype\<close>.\<close>

definition example_prototype :: "(string \<times> atom jsval) list" where
  "example_prototype =
     [(''constructor'', Val (Ref ''Object'')),
      (''hasOwnProperty'', Val (Ref ''hasOwnProperty'')),
      (''isPrototypeOf'', Val (Ref ''isPrototypeOf'')),
      (''propertyIsEnumerable'', Val (Ref ''propertyIsEnumerable'')),
      (''toLocaleString'', Val (Ref ''toLocaleString'')),
      (''toString'', Val (Ref ''toString'')),
      (''valueOf'', Val (Ref ''valueOf'')),
      (''__proto__'', Val (Ref ''Object.prototype''))]"

definition plain :: "(string \<times> atom jsval) list \<Rightarrow> atom jsobj" where
  "plain props = Object props example_prototype"

definition example_function :: "string \<Rightarrow> atom jsobj" where
  "example_function name =
     Object [(''length'', Val (Num 0)), (''name'', Str name)]
       ([(''apply'', Val (Ref ''apply'')), (''bind'', Val (Ref ''bind'')),
         (''call'', Val (Ref ''call''))] @ example_prototype)"

definition error_prototype :: "(string \<times> atom jsval) list" where
  "error_prototype =
     [(''name'', Str ''Error''), (''message'', Str ''''),
      (''toString'', Val (Ref ''Error.prototype.toString''))] @ example_prototype"

text \<open>The statistics of a file are a plain object too: these are the functions it
  inherits, as the objects they are.\<close>

definition statistics_prototype :: "(string \<times> atom jsobj) list" where
  "statistics_prototype =
     [(''constructor'', example_function ''Object''),
      (''hasOwnProperty'', example_function ''hasOwnProperty''),
      (''isPrototypeOf'', example_function ''isPrototypeOf''),
      (''propertyIsEnumerable'', example_function ''propertyIsEnumerable''),
      (''toLocaleString'', example_function ''toLocaleString''),
      (''toString'', example_function ''toString''),
      (''valueOf'', example_function ''valueOf''),
      (''__proto__'', Object example_prototype [])]"

text \<open>
  One model over the file \<^verbatim>\<open>data.csv\<close>, whose metric record is in the database without
  bounds; the file has two records; nothing is cached. The runs below change one
  collaborator at a time.
\<close>

definition example_model :: model where
  "example_model =
     \<lparr>modelId = ''model1'', filename = ''data.csv'', metric = ''value'',
      timestampField = ''timestamp''\<rparr>"

definition example_metric :: "atom jsobj" where
  "example_metric =
     plain [(''uid'', Str ''data.csv!value''), (''file_uid'', Str ''data.csv''),
            (''name'', Str ''value''), (''type'', Str ''number'')]"

definition example_statistics :: "atom file_stats" where
  "example_statistics =
     Object [(''value'', plain [(''min'', Val (Num 5)), (''max'', Val (Num 7))])]
       statistics_prototype"

text \<open>The two rows as the first run over the file queues them, read back from JSON.\<close>

definition cached_row1 :: "atom jsobj" where
  "cached_row1 =
     plain [(''uid'', Str ''data.csv!value!row''), (''metric_uid'', Str ''data.csv!value''),
            (''rowid'', Val (Num 0)), (''timestamp'', Str ''1970-01-01T00:00:01.000Z''),
            (''metric_value'', Val (Num 5)), (''display_value'', Val (Num 5))]"

definition cached_row2 :: "atom jsobj" where
  "cached_row2 =
     plain [(''uid'', Str ''data.csv!value!row''), (''metric_uid'', Str ''data.csv!value''),
            (''rowid'', Val (Num 1)), (''timestamp'', Str ''1970-01-01T00:00:02.000Z''),
            (''metric_value'', Val (Num 7)), (''display_value'', Val (Num 7))]"

definition example_ctx :: "atom ctx" where
  \<open>example_ctx =
     \<lparr>getModel = (\<lambda>mId. example_model\<lparr>modelId := mId\<rparr>),
      generateModelId = (\<lambda>f k. f @ ''!'' @ k),
      generateDataId = (\<lambda>f k t. f @ ''!'' @ k @ ''!row''),
      JSON_parse = map_of
        [(''{"timestamp":1000,"value":5}'',
          plain [(''timestamp'', Val (Num 1000)), (''value'', Val (Num 5))]),
         (''{"timestamp":2000,"value":7}'',
          plain [(''timestamp'', Val (Num 2000)), (''value'', Val (Num 7))]),
         (''{"value":9}'', plain [(''value'', Val (Num 9))])],
      JSON_parse_rows = map_of
        [(''[]'', []),
         (''[{"uid":"data.csv!value!row","metric_uid":"data.csv!value","rowid":0,"timestamp":"1970-01-01T00:00:01.000Z","metric_value":5,"display_value":5},{"uid":"data.csv!value!row","metric_uid":"data.csv!value","rowid":1,"timestamp":"1970-01-01T00:00:02.000Z","metric_value":7,"display_value":7}]'',
          [cached_row1, cached_row2])],
      Object_prototype = example_prototype,
      date_of = (\<lambda>v. case v of
                        Val (Num ms) \<Rightarrow>
                          if - 8640000000000000 \<le> ms \<and> ms \<le> 8640000000000000
                          then Some ms else None
                      | Val (Bool b) \<Rightarrow> Some (if b then 1 else 0)
                      | Val (Ref r) \<Rightarrow> None
                      | Str s \<Rightarrow> map_of [(''1970-01-01T00:00:01.000Z'', 1000),
                                          (''1970-01-01T00:00:02.000Z'', 2000)] s
                      | Undefined \<Rightarrow> None),
      db_getMetric = (\<lambda>k. (None, Some example_metric)),
      fs_getStatistics = (\<lambda>f. Inr example_statistics),
      db_putMetric = (\<lambda>obj. None),
      db_getMetricDatas = (\<lambda>k. Inr ''[]''),
      fs_getData = (\<lambda>f. [(None, Some ''{"timestamp":1000,"value":5}''),
                          (None, Some ''{"timestamp":2000,"value":7}''),
                          (None, None)]),
      db_putMetricDatas = (\<lambda>json. None)\<rparr>\<close>

text \<open>The bounds are already in the database.\<close>

definition cached_stats_ctx :: "atom ctx" where
  "cached_stats_ctx =
     example_ctx\<lparr>db_getMetric :=
       (\<lambda>k. (None, Some (plain
          [(''uid'', Str ''data.csv!value''), (''file_uid'', Str ''data.csv''),
           (''name'', Str ''value''), (''type'', Str ''number''),
           (''min'', Val (Num 5)), (''max'', Val (Num 7))])))\<rparr>"

text \<open>The database has no record of the metric: its callback gets an error with a
  \<^verbatim>\<open>notFound\<close> property of its own and no result.\<close>

definition not_found_ctx :: "atom ctx" where
  "not_found_ctx =
     example_ctx\<lparr>db_getMetric :=
       (\<lambda>k. (Some (plain [(''notFound'', Val (Bool True))]), None))\<rparr>"

text \<open>The same, with an error as LevelUP makes it: \<^verbatim>\<open>notFound\<close> and \<^verbatim>\<open>status\<close> are set on the
  prototype of the class \<^verbatim>\<open>NotFoundError\<close>, the instance has only its message.\<close>

definition level_not_found :: "atom jsobj" where
  "level_not_found =
     Object [(''message'', Str ''Key not found in database [data.csv!value]'')]
       ([(''notFound'', Val (Bool True)), (''status'', Val (Num 404)),
         (''name'', Str ''NotFoundError'')] @ error_prototype)"

definition level_not_found_ctx :: "atom ctx" where
  "level_not_found_ctx = example_ctx\<lparr>db_getMetric := (\<lambda>k. (Some level_not_found, None))\<rparr>"

text \<open>The database fails.\<close>

definition io_error :: "atom jsobj" where
  "io_error = Object [(''message'', Str ''IO error'')] error_prototype"

definition db_failure_ctx :: "atom ctx" where
  "db_failure_ctx = example_ctx\<lparr>db_getMetric := (\<lambda>k. (Some io_error, None))\<rparr>"

text \<open>The statistics of the file have no entry for the metric \<^verbatim>\<open>value\<close>.\<close>

definition other_statistics :: "atom file_stats" where
  "other_statistics =
     Object [(''other'', plain [(''min'', Val (Num 0)), (''max'', Val (Num 1))])]
       statistics_prototype"

definition missing_metric_ctx :: "atom ctx" where
  "missing_metric_ctx = example_ctx\<lparr>fs_getStatistics := (\<lambda>f. Inr other_statistics)\<rparr>"

text \<open>The metric of the model is called \<^verbatim>\<open>constructor\<close>, a name every statistics object
  inherits.\<close>

definition inherited_name_ctx :: "atom ctx" where
  "inherited_name_ctx =
     example_ctx\<lparr>getModel := (\<lambda>mId. example_model\<lparr>modelId := mId, metric := ''constructor''\<rparr>)\<rparr>"

text \<open>The two rows of the file are cached, under the key \<^verbatim>\<open>timestamp\<close> that line 185 gives
  the time of a row.\<close>

definition cached_data_ctx :: "atom ctx" where
  \<open>cached_data_ctx =
     example_ctx\<lparr>db_getMetricDatas :=
       (\<lambda>k. Inr ''[{"uid":"data.csv!value!row","metric_uid":"data.csv!value","rowid":0,"timestamp":"1970-01-01T00:00:01.000Z","metric_value":5,"display_value":5},{"uid":"data.csv!value!row","metric_uid":"data.csv!value","rowid":1,"timestamp":"1970-01-01T00:00:02.000Z","metric_value":7,"display_value":7}]'')\<rparr>\<close>

text \<open>The same cache, for a model whose file calls its time column \<^verbatim>\<open>dttm\<close>.\<close>

definition renamed_column_ctx :: "atom ctx" where
  "renamed_column_ctx =
     cached_data_ctx\<lparr>getModel :=
       (\<lambda>mId. example_model\<lparr>modelId := mId, timestampField := ''dttm''\<rparr>)\<rparr>"

text \<open>The file has one record, which has no timestamp.\<close>

definition no_timestamp_ctx :: "atom ctx" where
  \<open>no_timestamp_ctx =
     example_ctx\<lparr>fs_getData := (\<lambda>f. [(None, Some ''{"value":9}''), (None, None)])\<rparr>\<close>

text \<open>The first record of the file is not JSON, and the file client goes on reading.\<close>

definition bad_record_ctx :: "atom ctx" where
  \<open>bad_record_ctx =
     example_ctx\<lparr>fs_getData :=
       (\<lambda>f. [(None, Some ''timestamp,value''),
             (None, Some ''{"timestamp":2000,"value":7}''),
             (None, None)])\<rparr>\<close>

text \<open>Reading the file fails after its first record.\<close>

definition read_error :: "atom jsobj" where
  "read_error = Object [(''code'', Str ''EIO'')] error_prototype"

definition read_error_ctx :: "atom ctx" where
  \<open>read_error_ctx =
     example_ctx\<lparr>fs_getData :=
       (\<lambda>f. [(None, Some ''{"timestamp":1000,"value":5}''), (Some read_error, None)])\<rparr>\<close>

text \<open>The first record of the file is not JSON, and reading fails after it.\<close>

definition bad_record_then_error_ctx :: "atom ctx" where
  "bad_record_then_error_ctx =
     example_ctx\<lparr>fs_getData :=
       (\<lambda>f. [(None, Some ''timestamp,value''), (Some read_error, None)])\<rparr>"

text \<open>A chart of one point, one of two points, and a component not yet mounted.\<close>

definition one_point :: "int chart_props" where
  "one_point = \<lparr>data = [[Val 1000, Val 5]], options = []\<rparr>"

definition two_points :: "int chart_props" where
  "two_points = \<lparr>data = [[Val 1000, Val 5], [Val 2000, Val 7]], options = []\<rparr>"

definition constructed :: "int chart" where
  "constructed =
     \<lparr>dygraph = None, displayPointCount = Val 200, chartBusy = None, chartRange = None,
      chartRangeWidth = None, chartScrollLock = None\<rparr>"


section \<open>Properties of the start-model action\<close>

subsection \<open>Unfolding\<close>

lemmas object_defs = example_prototype_def plain_def example_function_def error_prototype_def
  statistics_prototype_def example_metric_def example_statistics_def cached_row1_def
  cached_row2_def level_not_found_def io_error_def other_statistics_def read_error_def

lemmas scenario_defs = example_ctx_def example_model_def
  cached_stats_ctx_def not_found_ctx_def level_not_found_ctx_def db_failure_ctx_def
  missing_metric_ctx_def inherited_name_ctx_def cached_data_ctx_def renamed_column_ctx_def
  no_timestamp_ctx_def bad_record_ctx_def read_error_ctx_def bad_record_then_error_ctx_def

lemmas action_defs = StartModel_def getMetricFromDatabase_def getMetricStatsFromFilesystem_def
  putMetricStatsIntoDatabase_def getMetricDataFromDatabase_def cached_bounds_def
  rebuilt_metric_def stats_ready_def stats_rejected_def stats_threw_def streamData_def
  getData_callback_def emit_def resolve_def reject_def sink_event_def queued_row_def
  replay_row_def new_Date_def toISOString_def prop_in_def prop_lookup_def prop_get_def Let_def

subsection \<open>What streamData can emit\<close>

lemma events_emit: "events (emit e s) = events s @ [e]"
  and events_resolve: "events (resolve v s) = events s @ [ResolveCall StreamDataPromise v]"
  and events_reject: "events (reject r s) = events s @ [RejectCall StreamDataPromise r]"
  by (simp_all add: emit_def resolve_def reject_def)

lemma replay_events:
  "foldl (\<lambda>s row. emit (f row) s) s cached =
   s\<lparr>events := events s @ map f cached\<rparr>"
  by (induction cached arbitrary: s) (simp_all add: emit_def)

lemma callback_stream_events:
  "list_all stream_event (events s) \<Longrightarrow>
   list_all stream_event (events (getData_callback c m error dat s))"
  by (simp add: getData_callback_def emit_def resolve_def reject_def sink_event_def Let_def
      split: option.splits list.splits sum.splits rows_var.splits)

lemma callbacks_stream_events:
  "list_all stream_event (events s) \<Longrightarrow>
   list_all stream_event (events (getData_callbacks c m evs s))"
  by (induction evs arbitrary: s) (auto simp: callback_stream_events)

lemma streamData_stream_events: "list_all stream_event (events (streamData c mId))"
proof -
  have replayed: "list_all stream_event (map (replay_row c m) cached)" for m cached
    by (induction cached) (simp_all add: replay_row_def)
  show ?thesis
    by (auto simp: streamData_def getMetricDataFromDatabase_def Let_def replay_events
        events_emit events_resolve events_reject replayed
        intro!: callbacks_stream_events
        split: sum.splits taken.splits option.splits)
qed

lemma not_stream_event: "\<not> stream_event e \<Longrightarrow> e \<notin> set (events (streamData c mId))"
  using streamData_stream_events [of c mId] by (auto simp: list_all_iff)

subsection \<open>The callbacks of a run\<close>

lemma streamData_reads:
  assumes "getModel c mId = m"
    and "db_getMetricDatas c (generateModelId c (filename m) (metric m)) = Inr cached_json"
    and "JSON_parse_rows c cached_json = Some []"
  shows "streamData c mId = getData_callbacks c m (fs_getData c (filename m)) (getData_called c m)"
  using assms
  by (simp add: streamData_def getMetricDataFromDatabase_def getData_called_def Let_def emit_def)

lemma getData_callbacks_append:
  "getData_callbacks c m (xs @ ys) s = getData_callbacks c m ys (getData_callbacks c m xs s)"
  by (induction xs arbitrary: s) auto

lemma callback_extends:
  "\<exists>later. events (getData_callback c m error dat s) = events s @ later"
  by (simp add: getData_callback_def emit_def resolve_def reject_def Let_def
      split: option.splits list.splits sum.splits rows_var.splits)

lemma callbacks_extend:
  "\<exists>later. events (getData_callbacks c m evs s) = events s @ later"
proof (induction evs arbitrary: s)
  case Nil
  then show ?case by simp
next
  case (Cons ev evs)
  obtain error dat where ev: "ev = (error, dat)"
    by (cases ev)
  obtain first where first:
    "events (getData_callback c m error dat s) = events s @ first"
    using callback_extends by blast
  obtain rest where
    "events (getData_callbacks c m evs (getData_callback c m error dat s)) =
     events (getData_callback c m error dat s) @ rest"
    using Cons.IH by blast
  with first ev show ?case
    by simp
qed

lemma settled_by_callback:
  "promise s \<noteq> Pending \<Longrightarrow> promise (getData_callback c m error dat s) = promise s"
  by (cases "promise s")
    (simp_all add: getData_callback_def emit_def resolve_def reject_def Let_def
      split: option.splits list.splits sum.splits rows_var.splits)

lemma settled_by_callbacks:
  "promise s \<noteq> Pending \<Longrightarrow> promise (getData_callbacks c m evs s) = promise s"
  by (induction evs arbitrary: s) (auto simp: settled_by_callback)

lemma callback_error:
  "getData_callback c m (Some err) dat s =
   s\<lparr>promise := settle (promise s) (Rejected (CollaboratorError err)),
     events := events s @
       [StopModel (modelId m), RejectCall StreamDataPromise (CollaboratorError err)]\<rparr>"
  by (simp add: getData_callback_def emit_def reject_def)

lemma callback_record:
  assumes "readable_record c m d (row, ms)" and "rows s = RowArray rs"
  shows "getData_callback c m None (Some d) s =
         s\<lparr>rows := RowArray (rs @ [queued_row c m (rowId s) row (Some ms) ms]),
           rowId := Suc (rowId s),
           events := events s @ [sink_event c m row]\<rparr>"
  using assms
  by (cases d) (simp_all add: readable_record_def getData_callback_def emit_def toISOString_def)

lemma callbacks_records:
  "list_all2 (readable_record c m) ds ps \<Longrightarrow> rows s = RowArray rs \<Longrightarrow>
   getData_callbacks c m (map (\<lambda>d. (None, Some d)) ds) s =
   s\<lparr>rows := RowArray (rs @ queued_rows c m (rowId s) ps),
     rowId := rowId s + length ps,
     events := events s @ map (sink_event c m \<circ> fst) ps\<rparr>"
proof (induction ds ps arbitrary: s rs rule: list_all2_induct)
  case Nil
  then show ?case by simp
next
  case (Cons d ds p ps)
  obtain row ms where p: "p = (row, ms)" by (cases p)
  from Cons.hyps(1) p Cons.prems
  have step: "getData_callback c m None (Some d) s =
         s\<lparr>rows := RowArray (rs @ [queued_row c m (rowId s) row (Some ms) ms]),
           rowId := Suc (rowId s),
           events := events s @ [sink_event c m row]\<rparr>"
    by (simp add: callback_record)
  show ?case
    by (simp add: step p Cons.IH [where rs = "rs @ [queued_row c m (rowId s) row (Some ms) ms]"])
qed

lemma length_queued_rows: "length (queued_rows c m n ps) = length ps"
  by (induction ps arbitrary: n) auto

subsection \<open>The example installation\<close>

lemma example_getModel: "getModel example_ctx ''model1'' = example_model"
  by (simp add: example_ctx_def example_model_def)

lemma example_modelId:
  "generateModelId example_ctx (filename example_model) (metric example_model) =
   ''data.csv!value''"
  by (simp add: example_ctx_def example_model_def)

lemma example_not_cached:
  "db_getMetricDatas example_ctx ''data.csv!value'' = Inr ''[]'' \<and>
   JSON_parse_rows example_ctx ''[]'' = Some []"
  by (simp add: example_ctx_def)

lemma example_records:
  \<open>readable_record example_ctx example_model ''{"timestamp":1000,"value":5}''
     (plain [(''timestamp'', Val (Num 1000)), (''value'', Val (Num 5))], 1000) \<and>
   readable_record example_ctx example_model ''{"timestamp":2000,"value":7}''
     (plain [(''timestamp'', Val (Num 2000)), (''value'', Val (Num 7))], 2000)\<close>
  by (simp add: readable_record_def example_ctx_def example_model_def new_Date_def prop_get_def
      prop_lookup_def plain_def)

subsection \<open>Objects\<close>

text \<open>An own property hides an inherited one, and the nearest prototype hides the ones
  behind it; a property of the prototype is there for \<^verbatim>\<open>in\<close>.\<close>

lemma own_hides_inherited:
  "prop_get level_not_found ''message'' = Str ''Key not found in database [data.csv!value]'' \<and>
   prop_get level_not_found ''name'' = Str ''NotFoundError'' \<and>
   prop_get level_not_found ''notFound'' = Val (Bool True) \<and>
   prop_get level_not_found ''errno'' = Undefined \<and>
   prop_in ''toString'' level_not_found \<and>
   \<not> prop_in ''errno'' level_not_found"
  by (simp add: prop_get_def prop_lookup_def prop_in_def level_not_found_def error_prototype_def
      example_prototype_def)

subsection \<open>Statistics\<close>

text \<open>
  When the statistics of the file do not have the metric, neither as a property of
  their own nor as an inherited one, the action hands the statistics themselves to
  \<^verbatim>\<open>reject\<close> (line 258): the value it rejects with is no \<^verbatim>\<open>Error\<close>, and no
  \<^verbatim>\<open>FilesystemGetError\<close> is built on this path.
\<close>

lemma prop_lookup_missing:
  assumes "\<not> prop_in k obj"
  shows "prop_lookup obj k = None"
proof -
  from assms have "map_of (own obj) k = None" and "map_of (inherited obj) k = None"
    by (simp_all add: prop_in_def map_of_eq_None_iff)
  then show ?thesis
    by (simp add: prop_lookup_def)
qed

lemma missing_metric_rejects_with_stats_object:
  assumes "getModel c mId = m"
    and "db_getMetric c (generateModelId c (filename m) (metric m)) = (None, mo)"
    and "cached_bounds c mo = None"
    and "fs_getStatistics c (filename m) = Inr fstats"
    and "\<not> prop_in (metric m) fstats"
  shows "StartModel c mId =
           \<lparr>trace = [DbGetMetric (generateModelId c (filename m) (metric m)),
                     FsGetStatistics (filename m),
                     RejectCall StartModelPromise (StatsObject fstats)],
            outer = Rejected (StatsObject fstats), inner = None\<rparr>"
  using assms
  by (simp add: StartModel_def getMetricFromDatabase_def getMetricStatsFromFilesystem_def
      stats_rejected_def prop_lookup_missing)

text \<open>
  Claim C1 says that, for statistics without the model's metric, the promise is rejected
  with a \<^verbatim>\<open>FilesystemGetError\<close> wrapper. The run with such statistics: the promise is
  rejected with the plain statistics object.
\<close>

theorem missing_metric_rejects_with_statistics:
  "StartModel missing_metric_ctx ''model1'' =
     \<lparr>trace = [DbGetMetric ''data.csv!value'', FsGetStatistics ''data.csv'',
               RejectCall StartModelPromise
                 (StatsObject
                    (Object [(''other'', plain [(''min'', Val (Num 0)), (''max'', Val (Num 1))])]
                       statistics_prototype))],
      outer = Rejected
                (StatsObject
                   (Object [(''other'', plain [(''min'', Val (Num 0)), (''max'', Val (Num 1))])]
                      statistics_prototype)),
      inner = None\<rparr>"
  by (simp add: scenario_defs object_defs action_defs)

text \<open>
  A metric whose name the statistics inherit counts as present, as \<^verbatim>\<open>in\<close> has it: for the
  metric \<^verbatim>\<open>constructor\<close> the action takes the function \<^verbatim>\<open>Object\<close> for the statistics, whose
  \<^verbatim>\<open>min\<close> and \<^verbatim>\<open>max\<close> are undefined, writes them to the database and creates the model.
\<close>

lemma inherited_metric_name_is_present:
  "take 5 (trace (StartModel inherited_name_ctx ''model1'')) =
     [DbGetMetric ''data.csv!constructor'', FsGetStatistics ''data.csv'',
      DbPutMetric
        (plain [(''uid'', Str ''data.csv!value''), (''file_uid'', Str ''data.csv''),
                (''model_uid'', Str ''model1''), (''name'', Str ''value''),
                (''type'', Str ''number''), (''min'', Undefined), (''max'', Undefined)]),
      DispatchStartModelSuccess ''model1'',
      CreateModel ''model1'' (example_function ''Object'')]"
  by (simp add: scenario_defs object_defs StartModel_def getMetricFromDatabase_def
      getMetricStatsFromFilesystem_def putMetricStatsIntoDatabase_def cached_bounds_def
      rebuilt_metric_def stats_ready_def prop_in_def prop_lookup_def prop_get_def Let_def)

text \<open>
  Claim C6: when the metric record of the database has both a \<^verbatim>\<open>min\<close> and a \<^verbatim>\<open>max\<close>
  field, the model is created with these bounds; the file client is never asked for
  statistics and no metric is written to the database, neither before the streaming
  starts nor during it.
\<close>

theorem cached_bounds_skip_filesystem:
  assumes "getModel c mId = m"
    and "db_getMetric c (generateModelId c (filename m) (metric m)) = (None, Some mo)"
    and "prop_in ''min'' mo" and "prop_in ''max'' mo"
  shows "trace (StartModel c mId) =
           [DbGetMetric (generateModelId c (filename m) (metric m)),
            DispatchStartModelSuccess mId,
            CreateModel mId
              (Object [(''min'', prop_get mo ''min''), (''max'', prop_get mo ''max'')]
                 (Object_prototype c))] @
           events (streamData c mId) \<and>
         (\<forall>f. FsGetStatistics f \<notin> set (trace (StartModel c mId))) \<and>
         (\<forall>obj. DbPutMetric obj \<notin> set (trace (StartModel c mId)))"
proof -
  have run: "StartModel c mId =
      stats_ready c mId [DbGetMetric (generateModelId c (filename m) (metric m))]
        (Object [(''min'', prop_get mo ''min''), (''max'', prop_get mo ''max'')]
           (Object_prototype c))"
    using assms by (simp add: StartModel_def getMetricFromDatabase_def cached_bounds_def Let_def)
  show ?thesis
    by (simp add: run stats_ready_def Let_def not_stream_event)
qed

text \<open>The run where the database holds the bounds 5 and 7.\<close>

theorem cached_bounds_witness:
  "take 3 (trace (StartModel cached_stats_ctx ''model1'')) =
     [DbGetMetric ''data.csv!value'', DispatchStartModelSuccess ''model1'',
      CreateModel ''model1'' (plain [(''min'', Val (Num 5)), (''max'', Val (Num 7))])] \<and>
   FsGetStatistics ''data.csv'' \<notin> set (trace (StartModel cached_stats_ctx ''model1''))"
proof -
  let ?mo = "plain [(''uid'', Str ''data.csv!value''), (''file_uid'', Str ''data.csv''),
                    (''name'', Str ''value''), (''type'', Str ''number''),
                    (''min'', Val (Num 5)), (''max'', Val (Num 7))]"
  have m: "getModel cached_stats_ctx ''model1'' = example_model"
    by (simp add: cached_stats_ctx_def example_getModel)
  have db: "db_getMetric cached_stats_ctx
      (generateModelId cached_stats_ctx (filename example_model) (metric example_model)) =
      (None, Some ?mo)"
    by (simp add: cached_stats_ctx_def)
  have lo: "prop_in ''min'' ?mo" and hi: "prop_in ''max'' ?mo"
    by (simp_all add: prop_in_def plain_def)
  have id: "generateModelId cached_stats_ctx (filename example_model) (metric example_model) =
      ''data.csv!value''"
    by (simp add: cached_stats_ctx_def example_modelId)
  have proto: "Object_prototype cached_stats_ctx = example_prototype"
    by (simp add: cached_stats_ctx_def example_ctx_def)
  note run = cached_bounds_skip_filesystem [OF m db lo hi]
  from run have bounds: "take 3 (trace (StartModel cached_stats_ctx ''model1'')) =
      [DbGetMetric ''data.csv!value'', DispatchStartModelSuccess ''model1'',
       CreateModel ''model1'' (plain [(''min'', Val (Num 5)), (''max'', Val (Num 7))])]"
    by (simp add: id proto prop_get_def prop_lookup_def plain_def)
  from run
  have "FsGetStatistics ''data.csv'' \<notin> set (trace (StartModel cached_stats_ctx ''model1''))"
    by blast
  with bounds show ?thesis
    by simp
qed

text \<open>
  With a metric record that lacks a bound and statistics that have the metric, the
  statistics are asked for once and the rebuilt record is written once; the promise is
  rejected with \<^verbatim>\<open>DatabasePutError\<close> when the write fails.
\<close>

lemma miss_with_record_writes_once:
  assumes "getModel c mId = m"
    and "db_getMetric c (generateModelId c (filename m) (metric m)) = (None, Some mo)"
    and "cached_bounds c (Some mo) = None"
    and "fs_getStatistics c (filename m) = Inr fstats"
    and "prop_lookup fstats (metric m) = Some stats"
    and "rebuilt_metric c (Some mo) mId stats = Inr rebuilt"
  shows "trace (StartModel c mId) =
           [DbGetMetric (generateModelId c (filename m) (metric m)),
            FsGetStatistics (filename m),
            DbPutMetric rebuilt] @
           (case db_putMetric c rebuilt of
              Some err \<Rightarrow> [RejectCall StartModelPromise (UserError (DatabasePutError err))]
            | None \<Rightarrow> [DispatchStartModelSuccess mId, CreateModel mId stats] @
                       events (streamData c mId)) \<and>
         outer (StartModel c mId) =
           (case db_putMetric c rebuilt of
              Some err \<Rightarrow> Rejected (UserError (DatabasePutError err))
            | None \<Rightarrow> Pending)"
  using assms
  by (simp add: StartModel_def getMetricFromDatabase_def getMetricStatsFromFilesystem_def
      putMetricStatsIntoDatabase_def stats_rejected_def stats_ready_def Let_def
      split: option.splits)

text \<open>
  With no record at all (the lookup found nothing), nothing is ever written and the
  streaming never starts: line 269 reads \<^verbatim>\<open>metric.uid\<close> of the undefined \<^verbatim>\<open>metric\<close>.
\<close>

lemma no_record_never_written:
  assumes "getModel c mId = m"
    and "db_getMetric c (generateModelId c (filename m) (metric m)) = (error, None)"
  shows "DbPutMetric obj \<notin> set (trace (StartModel c mId)) \<and>
         (\<forall>v. inner (StartModel c mId) \<noteq> Some v)"
  using assms
  by (auto simp: StartModel_def getMetricFromDatabase_def getMetricStatsFromFilesystem_def
      cached_bounds_def rebuilt_metric_def stats_rejected_def stats_threw_def
      split: option.splits sum.splits)

text \<open>
  Claim C7 says that, when the lookup returns no record, the statistics are read from
  the file once and then written to the database once. The run where the database
  reports \<^verbatim>\<open>notFound\<close>: the statistics are read, then the coroutine dies of a TypeError;
  nothing is written and the promise is never settled.
\<close>

theorem not_found_never_written:
  "StartModel not_found_ctx ''model1'' =
     \<lparr>trace = [DbGetMetric ''data.csv!value'', FsGetStatistics ''data.csv'',
               Uncaught TypeError],
      outer = Pending, inner = None\<rparr>"
  by (simp add: scenario_defs object_defs action_defs)

text \<open>
  Claim C8: a database error that has the property \<^verbatim>\<open>notFound\<close>, its own or inherited,
  makes the lookup deliver the result, no \<^verbatim>\<open>DatabaseGetError\<close>, and the action is never
  rejected with one; with no result it goes on to the statistics of the file. Every
  other database error is delivered as \<^verbatim>\<open>DatabaseGetError\<close> and the promise of the action is
  rejected with it, nothing else being done.
\<close>

theorem not_found_is_a_miss:
  assumes "getModel c mId = m"
    and "db_getMetric c (generateModelId c (filename m) (metric m)) = (Some error, results)"
  shows "(prop_in ''notFound'' error \<longrightarrow>
            getMetricFromDatabase c m =
              ([DbGetMetric (generateModelId c (filename m) (metric m))], IsValue results) \<and>
            (\<forall>e. outer (StartModel c mId) \<noteq> Rejected (UserError (DatabaseGetError e))) \<and>
            (results = None \<longrightarrow>
               take 2 (trace (StartModel c mId)) =
                 [DbGetMetric (generateModelId c (filename m) (metric m)),
                  FsGetStatistics (filename m)])) \<and>
         (\<not> prop_in ''notFound'' error \<longrightarrow>
            getMetricFromDatabase c m =
              ([DbGetMetric (generateModelId c (filename m) (metric m))],
               IsError (DatabaseGetError error)) \<and>
            StartModel c mId =
              \<lparr>trace = [DbGetMetric (generateModelId c (filename m) (metric m)),
                        RejectCall StartModelPromise (UserError (DatabaseGetError error))],
               outer = Rejected (UserError (DatabaseGetError error)),
               inner = None\<rparr>)"
  using assms
  by (auto simp: StartModel_def getMetricFromDatabase_def getMetricStatsFromFilesystem_def
      putMetricStatsIntoDatabase_def cached_bounds_def rebuilt_metric_def stats_ready_def
      stats_rejected_def stats_threw_def Let_def
      split: option.splits sum.splits taken.splits if_splits)

text \<open>A lookup that finds nothing, with the error of LevelUP, whose \<^verbatim>\<open>notFound\<close> is
  inherited, and with an error that has a \<^verbatim>\<open>notFound\<close> of its own; and a database that
  fails.\<close>

theorem not_found_witness:
  "getMetricFromDatabase level_not_found_ctx example_model =
     ([DbGetMetric ''data.csv!value''], IsValue None) \<and>
   take 2 (trace (StartModel level_not_found_ctx ''model1'')) =
     [DbGetMetric ''data.csv!value'', FsGetStatistics ''data.csv''] \<and>
   getMetricFromDatabase not_found_ctx example_model =
     ([DbGetMetric ''data.csv!value''], IsValue None) \<and>
   StartModel db_failure_ctx ''model1'' =
     \<lparr>trace = [DbGetMetric ''data.csv!value'',
               RejectCall StartModelPromise (UserError (DatabaseGetError io_error))],
      outer = Rejected (UserError (DatabaseGetError io_error)),
      inner = None\<rparr>"
proof -
  have m1: "getModel level_not_found_ctx ''model1'' = example_model"
    by (simp add: level_not_found_ctx_def example_getModel)
  have db1: "db_getMetric level_not_found_ctx
      (generateModelId level_not_found_ctx (filename example_model) (metric example_model)) =
      (Some level_not_found, None)"
    by (simp add: level_not_found_ctx_def)
  have id1: "generateModelId level_not_found_ctx ''data.csv'' ''value'' = ''data.csv!value''"
    by (simp add: level_not_found_ctx_def example_ctx_def)
  have inherits: "prop_in ''notFound'' level_not_found"
    by (simp add: prop_in_def level_not_found_def)
  have m2: "getModel db_failure_ctx ''model1'' = example_model"
    by (simp add: db_failure_ctx_def example_getModel)
  have db2: "db_getMetric db_failure_ctx
      (generateModelId db_failure_ctx (filename example_model) (metric example_model)) =
      (Some io_error, None)"
    by (simp add: db_failure_ctx_def)
  have id2: "generateModelId db_failure_ctx ''data.csv'' ''value'' = ''data.csv!value''"
    by (simp add: db_failure_ctx_def example_ctx_def)
  have other: "\<not> prop_in ''notFound'' io_error"
    by (simp add: prop_in_def io_error_def error_prototype_def example_prototype_def)
  have m3: "getModel not_found_ctx ''model1'' = example_model"
    by (simp add: not_found_ctx_def example_getModel)
  have db3: "db_getMetric not_found_ctx
      (generateModelId not_found_ctx (filename example_model) (metric example_model)) =
      (Some (plain [(''notFound'', Val (Bool True))]), None)"
    by (simp add: not_found_ctx_def)
  have id3: "generateModelId not_found_ctx ''data.csv'' ''value'' = ''data.csv!value''"
    by (simp add: not_found_ctx_def example_ctx_def)
  have owns: "prop_in ''notFound'' (plain [(''notFound'', Val (Bool True))])"
    by (simp add: prop_in_def plain_def)
  from not_found_is_a_miss [OF m1 db1] not_found_is_a_miss [OF m2 db2]
    not_found_is_a_miss [OF m3 db3] inherits other owns
  show ?thesis
    by (simp add: id1 id2 id3 example_model_def)
qed

text \<open>
  Claim C9: the promise of the exported action is never resolved: it is not resolved
  in any run, \<^verbatim>\<open>resolve\<close> is never called on it, and it is still pending whenever
  \<^verbatim>\<open>streamData\<close> was started, however the promise of \<^verbatim>\<open>streamData\<close> is settled.
\<close>

theorem outer_promise_never_resolved:
  "(\<forall>v. outer (StartModel c mId) \<noteq> Resolved v) \<and>
   (\<forall>v. ResolveCall StartModelPromise v \<notin> set (trace (StartModel c mId))) \<and>
   (\<forall>p. inner (StartModel c mId) = Some p \<longrightarrow> outer (StartModel c mId) = Pending)"
  by (auto simp: StartModel_def getMetricFromDatabase_def getMetricStatsFromFilesystem_def
      putMetricStatsIntoDatabase_def cached_bounds_def rebuilt_metric_def stats_ready_def
      stats_rejected_def stats_threw_def Let_def not_stream_event
      split: option.splits sum.splits taken.splits if_splits prod.splits)

text \<open>The run of the example: \<^verbatim>\<open>streamData\<close> resolves, the action stays pending.\<close>

theorem outer_promise_witness:
  "inner (StartModel example_ctx ''model1'') = Some (Resolved ''model1'') \<and>
   outer (StartModel example_ctx ''model1'') = Pending"
proof -
  have settled: "inner (StartModel example_ctx ''model1'') = Some (Resolved ''model1'')"
    by (simp add: scenario_defs object_defs action_defs)
  with outer_promise_never_resolved [of example_ctx "''model1''"] show ?thesis
    by simp
qed

subsection \<open>Streaming\<close>

text \<open>
  Claim C2, amended: with no cached rows, if the file client delivers N records, each a
  text that parses to a row whose timestamp field is a valid date, and then the end of
  the data, \<^verbatim>\<open>streamData\<close> emits N sink events, one per record in the order read, then
  hands the N queued rows to \<^verbatim>\<open>putMetricDatas\<close> in one call, and then resolves with the
  identifier of the model if the write succeeds and rejects with the error of the
  database if it fails.
\<close>

theorem records_then_sentinel:
  assumes "getModel c mId = m"
    and "db_getMetricDatas c (generateModelId c (filename m) (metric m)) = Inr cached_json"
    and "JSON_parse_rows c cached_json = Some []"
    and "fs_getData c (filename m) = map (\<lambda>d. (None, Some d)) ds @ [(None, None)]"
    and "list_all2 (readable_record c m) ds ps"
    and "batch = Stringified (RowArray (queued_rows c m 0 ps))"
  shows "length ps = length ds \<and>
         length (queued_rows c m 0 ps) = length ds \<and>
         events (streamData c mId) =
           [DbGetMetricDatas (generateModelId c (filename m) (metric m)),
            FsGetData (filename m)] @
           map (sink_event c m \<circ> fst) ps @
           [DbPutMetricDatas batch,
            (case db_putMetricDatas c batch of
               None \<Rightarrow> ResolveCall StreamDataPromise (modelId m)
             | Some err \<Rightarrow> RejectCall StreamDataPromise (CollaboratorError err))] \<and>
         promise (streamData c mId) =
           (case db_putMetricDatas c batch of
              None \<Rightarrow> Resolved (modelId m)
            | Some err \<Rightarrow> Rejected (CollaboratorError err))"
proof -
  have len: "length ps = length ds"
    using assms(5) by (simp add: list_all2_lengthD)
  have start: "streamData c mId =
      getData_callbacks c m (map (\<lambda>d. (None, Some d)) ds @ [(None, None)]) (getData_called c m)"
    using streamData_reads [OF assms(1-3)] assms(4) by simp
  have recs: "getData_callbacks c m (map (\<lambda>d. (None, Some d)) ds) (getData_called c m) =
      (getData_called c m)\<lparr>rows := RowArray (queued_rows c m 0 ps), rowId := length ps,
         events := events (getData_called c m) @ map (sink_event c m \<circ> fst) ps\<rparr>"
    using callbacks_records [OF assms(5), of "getData_called c m" "[]"]
    by (simp add: getData_called_def)
  have last: "streamData c mId =
      getData_callback c m None None
        ((getData_called c m)\<lparr>rows := RowArray (queued_rows c m 0 ps), rowId := length ps,
           events := events (getData_called c m) @ map (sink_event c m \<circ> fst) ps\<rparr>)"
    by (simp add: start getData_callbacks_append recs)
  show ?thesis
    by (simp add: len length_queued_rows last assms(6) getData_callback_def getData_called_def
        Let_def emit_def resolve_def reject_def
        split: option.splits)
qed

text \<open>The run of the example: two records.\<close>

theorem records_then_sentinel_witness:
  \<open>events (streamData example_ctx ''model1'') =
     [DbGetMetricDatas ''data.csv!value'', FsGetData ''data.csv'',
      SendData ''model1'' (Div1000 (GetTime (Some 1000))) (ToNumber (Val (Num 5))),
      SendData ''model1'' (Div1000 (GetTime (Some 2000))) (ToNumber (Val (Num 7))),
      DbPutMetricDatas (Stringified (RowArray
        [\<lparr>uid = ''data.csv!value!row'', metric_uid = ''data.csv!value'', rowid = 0,
          timestamp = 1000, metric_value = ToNumber (Val (Num 5)),
          display_value = ToNumber (Val (Num 5))\<rparr>,
         \<lparr>uid = ''data.csv!value!row'', metric_uid = ''data.csv!value'', rowid = 1,
          timestamp = 2000, metric_value = ToNumber (Val (Num 7)),
          display_value = ToNumber (Val (Num 7))\<rparr>])),
      ResolveCall StreamDataPromise ''model1''] \<and>
   promise (streamData example_ctx ''model1'') = Resolved ''model1''\<close>
proof -
  let ?ds = \<open>[''{"timestamp":1000,"value":5}'', ''{"timestamp":2000,"value":7}'']\<close>
  let ?ps = "[(plain [(''timestamp'', Val (Num 1000)), (''value'', Val (Num 5))], 1000::int),
              (plain [(''timestamp'', Val (Num 2000)), (''value'', Val (Num 7))], 2000)]"
  have db: "db_getMetricDatas example_ctx
      (generateModelId example_ctx (filename example_model) (metric example_model)) = Inr ''[]''"
    by (simp add: example_modelId example_not_cached)
  have parse: "JSON_parse_rows example_ctx ''[]'' = Some []"
    by (simp add: example_not_cached)
  have fs: "fs_getData example_ctx (filename example_model) =
      map (\<lambda>d. (None, Some d)) ?ds @ [(None, None)]"
    by (simp add: example_ctx_def)
  have ok: "list_all2 (readable_record example_ctx example_model) ?ds ?ps"
    by (simp add: example_records)
  from records_then_sentinel [OF example_getModel db parse fs ok refl] show ?thesis
    by (simp add: sink_event_def queued_row_def new_Date_def prop_get_def prop_lookup_def
        plain_def example_ctx_def example_model_def)
qed

text \<open>
  Claim C2 as it is written fails for a record that parses and has no timestamp:
  \<^verbatim>\<open>toISOString\<close> raises RangeError on the invalid date, so the one record of the file
  gives no sink event and no row, and the batch written is empty.
\<close>

theorem record_without_timestamp_dropped:
  \<open>JSON_parse no_timestamp_ctx ''{"value":9}'' = Some (plain [(''value'', Val (Num 9))]) \<and>
   fs_getData no_timestamp_ctx ''data.csv'' = [(None, Some ''{"value":9}''), (None, None)] \<and>
   events (streamData no_timestamp_ctx ''model1'') =
     [DbGetMetricDatas ''data.csv!value'', FsGetData ''data.csv'', Uncaught RangeError,
      DbPutMetricDatas (Stringified (RowArray [])),
      ResolveCall StreamDataPromise ''model1'']\<close>
  by (simp add: scenario_defs object_defs action_defs)

text \<open>
  When the database returns a non-empty list of cached rows, \<^verbatim>\<open>streamData\<close> emits one sink
  event per row, in the order stored, resolves with the identifier of the model and
  never calls \<^verbatim>\<open>fileClient.getData\<close>. The time of an event is read from the row under the
  name of the model's timestamp field (line 152), its value under \<^verbatim>\<open>metric_value\<close>.
\<close>

lemma cached_rows_replayed:
  assumes "getModel c mId = m"
    and "db_getMetricDatas c (generateModelId c (filename m) (metric m)) = Inr cached_json"
    and "JSON_parse_rows c cached_json = Some cached"
    and "cached \<noteq> []"
  shows "events (streamData c mId) =
           DbGetMetricDatas (generateModelId c (filename m) (metric m)) #
           map (\<lambda>row. SendData (modelId m)
                  (Div1000 (GetTime (new_Date (date_of c) (prop_get row (timestampField m)))))
                  (ToNumber (prop_get row ''metric_value''))) cached @
           [ResolveCall StreamDataPromise (modelId m)] \<and>
         promise (streamData c mId) = Resolved (modelId m) \<and>
         (\<forall>f. FsGetData f \<notin> set (events (streamData c mId)))"
proof -
  have run: "streamData c mId =
      \<lparr>rows = RowArray [], rowId = 0, promise = Resolved (modelId m),
       events = DbGetMetricDatas (generateModelId c (filename m) (metric m)) #
         map (replay_row c m) cached @ [ResolveCall StreamDataPromise (modelId m)]\<rparr>"
    using assms
    by (simp add: streamData_def getMetricDataFromDatabase_def Let_def replay_events
        resolve_def)
  have "FsGetData f \<notin> set (map (replay_row c m) cached)" for f
    by (auto simp: replay_row_def)
  with run show ?thesis
    by (simp add: replay_row_def)
qed

text \<open>For a model whose timestamp field is called \<^verbatim>\<open>timestamp\<close>, the two cached rows are
  replayed with their times, in the order stored.\<close>

lemma replay_with_timestamp_column:
  "events (streamData cached_data_ctx ''model1'') =
     [DbGetMetricDatas ''data.csv!value'',
      SendData ''model1'' (Div1000 (GetTime (Some 1000))) (ToNumber (Val (Num 5))),
      SendData ''model1'' (Div1000 (GetTime (Some 2000))) (ToNumber (Val (Num 7))),
      ResolveCall StreamDataPromise ''model1''] \<and>
   promise (streamData cached_data_ctx ''model1'') = Resolved ''model1''"
  by (simp add: scenario_defs object_defs action_defs)

text \<open>
  Claim C3 says that the cached rows are replayed with each row's timestamp as epoch
  seconds. The rows are cached with their time under the key \<^verbatim>\<open>timestamp\<close> (line 185) and
  replayed from the key \<^verbatim>\<open>model.timestampField\<close> (line 152). The run for a model whose time
  column is \<^verbatim>\<open>dttm\<close>, over the two rows the first run cached: both rows are replayed, in
  the order stored and with their values, the promise resolves and the file is not
  read, but the time of both events is that of an invalid date, though the timestamps of
  the rows are valid.
\<close>

theorem replay_reads_model_timestamp_field:
  "timestampField (getModel renamed_column_ctx ''model1'') = ''dttm'' \<and>
   new_Date (date_of renamed_column_ctx) (prop_get cached_row1 ''timestamp'') = Some 1000 \<and>
   new_Date (date_of renamed_column_ctx) (prop_get cached_row2 ''timestamp'') = Some 2000 \<and>
   events (streamData renamed_column_ctx ''model1'') =
     [DbGetMetricDatas ''data.csv!value'',
      SendData ''model1'' (Div1000 (GetTime None)) (ToNumber (Val (Num 5))),
      SendData ''model1'' (Div1000 (GetTime None)) (ToNumber (Val (Num 7))),
      ResolveCall StreamDataPromise ''model1''] \<and>
   promise (streamData renamed_column_ctx ''model1'') = Resolved ''model1''"
  by (simp add: scenario_defs object_defs action_defs)

text \<open>
  Claim C4 says that a record that fails to parse rejects the promise, aborts the
  stream and issues a stop-model signal. The run where the first record of the file is
  not JSON and the file client reads on: the promise is rejected with the parse error,
  the callback dies of a TypeError on the undefined \<^verbatim>\<open>row\<close>, no stop-model action is
  executed, and the next record is sent to the sink and written to the database.
\<close>

theorem bad_record_no_stop:
  \<open>events (streamData bad_record_ctx ''model1'') =
     [DbGetMetricDatas ''data.csv!value'', FsGetData ''data.csv'',
      RejectCall StreamDataPromise (Exception SyntaxError), Uncaught TypeError,
      SendData ''model1'' (Div1000 (GetTime (Some 2000))) (ToNumber (Val (Num 7))),
      DbPutMetricDatas (Stringified (RowArray
        [\<lparr>uid = ''data.csv!value!row'', metric_uid = ''data.csv!value'', rowid = 0,
          timestamp = 2000, metric_value = ToNumber (Val (Num 7)),
          display_value = ToNumber (Val (Num 7))\<rparr>])),
      ResolveCall StreamDataPromise ''model1''] \<and>
   promise (streamData bad_record_ctx ''model1'') = Rejected (Exception SyntaxError)\<close>
  by (simp add: scenario_defs object_defs action_defs)

text \<open>
  Claim C5, amended: every invocation of the callback with a read error executes the
  stop-model action once and then calls \<^verbatim>\<open>reject\<close> with that error, and emits no sink
  event, in whatever state the stream is; the promise is rejected with that error if it
  was still pending, and keeps its settlement if it was settled before. In a run without
  cached rows, wherever the error comes among the invocations of the callback, the
  stop-model action and the call of \<^verbatim>\<open>reject\<close> follow the events of the invocations before
  it, and the promise \<^verbatim>\<open>streamData\<close> returns is rejected with the error exactly when those
  invocations left it pending.
\<close>

theorem read_error_stops_and_calls_reject:
  "getData_callback c m (Some err) dat s =
     s\<lparr>promise := settle (promise s) (Rejected (CollaboratorError err)),
       events := events s @
         [StopModel (modelId m), RejectCall StreamDataPromise (CollaboratorError err)]\<rparr> \<and>
   (promise s = Pending \<longrightarrow>
      promise (getData_callback c m (Some err) dat s) = Rejected (CollaboratorError err)) \<and>
   (promise s \<noteq> Pending \<longrightarrow>
      promise (getData_callback c m (Some err) dat s) = promise s) \<and>
   (getModel c mId = m \<and>
    db_getMetricDatas c (generateModelId c (filename m) (metric m)) = Inr cached_json \<and>
    JSON_parse_rows c cached_json = Some [] \<and>
    fs_getData c (filename m) = before @ [(Some err, dat)] @ after \<and>
    s = getData_callbacks c m before (getData_called c m) \<longrightarrow>
      (\<exists>later. events (streamData c mId) =
         events s @
         [StopModel (modelId m), RejectCall StreamDataPromise (CollaboratorError err)] @
         later) \<and>
      promise (streamData c mId) = settle (promise s) (Rejected (CollaboratorError err)))"
proof -
  let ?failed = "getData_callback c m (Some err) dat s"
  have one: "?failed =
     s\<lparr>promise := settle (promise s) (Rejected (CollaboratorError err)),
       events := events s @
         [StopModel (modelId m), RejectCall StreamDataPromise (CollaboratorError err)]\<rparr>"
    by (rule callback_error)
  have pending: "promise s = Pending \<Longrightarrow> promise ?failed = Rejected (CollaboratorError err)"
    by (simp add: one)
  have settled: "promise s \<noteq> Pending \<Longrightarrow> promise ?failed = promise s"
    by (cases "promise s") (simp_all add: one)
  have now_settled: "promise ?failed \<noteq> Pending"
    by (cases "promise s") (simp_all add: one)
  have run: "(\<exists>later. events (streamData c mId) =
         events s @
         [StopModel (modelId m), RejectCall StreamDataPromise (CollaboratorError err)] @
         later) \<and>
      promise (streamData c mId) = settle (promise s) (Rejected (CollaboratorError err))"
    if m: "getModel c mId = m"
      and db: "db_getMetricDatas c (generateModelId c (filename m) (metric m)) = Inr cached_json"
      and parse: "JSON_parse_rows c cached_json = Some []"
      and fs: "fs_getData c (filename m) = before @ [(Some err, dat)] @ after"
      and s: "s = getData_callbacks c m before (getData_called c m)"
  proof -
    have whole: "streamData c mId = getData_callbacks c m after ?failed"
      using streamData_reads [OF m db parse] fs s
      by (simp add: getData_callbacks_append)
    obtain later where
      "events (getData_callbacks c m after ?failed) = events ?failed @ later"
      using callbacks_extend by blast
    then have "events (streamData c mId) =
        events s @
        [StopModel (modelId m), RejectCall StreamDataPromise (CollaboratorError err)] @ later"
      by (simp add: whole one)
    moreover have "promise (streamData c mId) =
        settle (promise s) (Rejected (CollaboratorError err))"
      using settled_by_callbacks [OF now_settled, of c m after]
      by (simp add: whole one)
    ultimately show ?thesis
      by blast
  qed
  from one pending settled run show ?thesis
    by blast
qed

text \<open>The run where reading fails after the first record: the promise was pending and is
  rejected with the read error. The run where reading fails after a record that is not
  JSON: the promise was rejected with the parse error and keeps it.\<close>

theorem read_error_witness:
  \<open>promise (getData_callbacks read_error_ctx example_model
      [(None, Some ''{"timestamp":1000,"value":5}'')]
      (getData_called read_error_ctx example_model)) = Pending \<and>
   events (streamData read_error_ctx ''model1'') =
     [DbGetMetricDatas ''data.csv!value'', FsGetData ''data.csv'',
      SendData ''model1'' (Div1000 (GetTime (Some 1000))) (ToNumber (Val (Num 5))),
      StopModel ''model1'',
      RejectCall StreamDataPromise (CollaboratorError read_error)] \<and>
   promise (streamData read_error_ctx ''model1'') = Rejected (CollaboratorError read_error) \<and>
   promise (getData_callbacks bad_record_then_error_ctx example_model
      [(None, Some ''timestamp,value'')]
      (getData_called bad_record_then_error_ctx example_model)) =
     Rejected (Exception SyntaxError) \<and>
   promise (streamData bad_record_then_error_ctx ''model1'') =
     Rejected (Exception SyntaxError)\<close>
proof -
  let ?before = \<open>[(None, Some ''{"timestamp":1000,"value":5}'')] ::
    (atom jsobj option \<times> string option) list\<close>
  let ?s = "getData_callbacks read_error_ctx example_model ?before
      (getData_called read_error_ctx example_model)"
  have m: "getModel read_error_ctx ''model1'' = example_model"
    by (simp add: read_error_ctx_def example_getModel)
  have db: "db_getMetricDatas read_error_ctx
      (generateModelId read_error_ctx (filename example_model) (metric example_model)) =
      Inr ''[]''"
    by (simp add: read_error_ctx_def example_modelId example_not_cached)
  have parse: "JSON_parse_rows read_error_ctx ''[]'' = Some []"
    by (simp add: read_error_ctx_def example_not_cached)
  have fs: "fs_getData read_error_ctx (filename example_model) =
      ?before @ [(Some read_error, None)] @ []"
    by (simp add: read_error_ctx_def)
  have pending: "promise ?s = Pending"
    by (simp add: scenario_defs object_defs action_defs getData_called_def)
  have evs: "events (streamData read_error_ctx ''model1'') =
     [DbGetMetricDatas ''data.csv!value'', FsGetData ''data.csv'',
      SendData ''model1'' (Div1000 (GetTime (Some 1000))) (ToNumber (Val (Num 5))),
      StopModel ''model1'',
      RejectCall StreamDataPromise (CollaboratorError read_error)]"
    by (simp add: scenario_defs object_defs action_defs)
  from read_error_stops_and_calls_reject
    [of read_error_ctx example_model read_error None ?s "''model1''" "''[]''" ?before "[]"]
    m db parse fs pending
  have rejected: "promise (streamData read_error_ctx ''model1'') =
      Rejected (CollaboratorError read_error)"
    by simp
  let ?bad = "[(None, Some ''timestamp,value'')] :: (atom jsobj option \<times> string option) list"
  let ?t = "getData_callbacks bad_record_then_error_ctx example_model ?bad
      (getData_called bad_record_then_error_ctx example_model)"
  have m': "getModel bad_record_then_error_ctx ''model1'' = example_model"
    by (simp add: bad_record_then_error_ctx_def example_getModel)
  have db': "db_getMetricDatas bad_record_then_error_ctx
      (generateModelId bad_record_then_error_ctx (filename example_model)
         (metric example_model)) = Inr ''[]''"
    by (simp add: bad_record_then_error_ctx_def example_modelId example_not_cached)
  have parse': "JSON_parse_rows bad_record_then_error_ctx ''[]'' = Some []"
    by (simp add: bad_record_then_error_ctx_def example_not_cached)
  have fs': "fs_getData bad_record_then_error_ctx (filename example_model) =
      ?bad @ [(Some read_error, None)] @ []"
    by (simp add: bad_record_then_error_ctx_def)
  have settled: "promise ?t = Rejected (Exception SyntaxError)"
    by (simp add: scenario_defs object_defs action_defs getData_called_def)
  from read_error_stops_and_calls_reject
    [of bad_record_then_error_ctx example_model read_error None ?t "''model1''" "''[]''"
      ?bad "[]"]
    m' db' parse' fs' settled
  have kept: "promise (streamData bad_record_then_error_ctx ''model1'') =
      Rejected (Exception SyntaxError)"
    by simp
  from pending evs rejected settled kept show ?thesis
    by simp
qed

text \<open>
  Claim C5 as it is written fails when the promise is settled before the read error: the
  first record of the file is not JSON, which rejects the promise with the parse error,
  and the read error that follows stops the model and calls \<^verbatim>\<open>reject\<close>, but the promise
  keeps the parse error.
\<close>

theorem read_error_after_parse_error:
  "events (streamData bad_record_then_error_ctx ''model1'') =
     [DbGetMetricDatas ''data.csv!value'', FsGetData ''data.csv'',
      RejectCall StreamDataPromise (Exception SyntaxError), Uncaught TypeError,
      StopModel ''model1'',
      RejectCall StreamDataPromise (CollaboratorError read_error)] \<and>
   promise (streamData bad_record_then_error_ctx ''model1'') = Rejected (Exception SyntaxError)"
  by (simp add: scenario_defs object_defs action_defs)


section \<open>Properties of the chart widget\<close>

lemma one_point_throws:
  "length (data this_props) = 1 \<Longrightarrow>
   componentDidMount date this_props this = Throw TypeError (mounted this)"
  by (simp add: componentDidMount_def chartInitalize_def data_i_0_def split: list.splits)

lemma two_points_initialize:
  "2 \<le> length (data this_props) \<Longrightarrow>
   \<exists>this'. componentDidMount date this_props this = Normal this' \<and>
           chartRangeWidth this' \<noteq> None \<and> dygraph this' \<noteq> None"
  by (auto simp: componentDidMount_def chartInitalize_def data_i_0_def Let_def
      split: list.splits)

lemma no_point_mounts:
  "length (data this_props) = 0 \<Longrightarrow> componentDidMount date this_props this = Normal (mounted this)"
  by (simp add: componentDidMount_def)

text \<open>
  Claim C10: with exactly one point the guard of \<^verbatim>\<open>componentDidMount\<close> lets the
  initialization run, which reads \<^verbatim>\<open>data[1][0]\<close>, an element that is not there: the read
  raises TypeError, so no time unit and no chart range are computed (the width stays
  \<^verbatim>\<open>null\<close>, the range the \<^verbatim>\<open>[0, 0]\<close> of mounting) and no chart is built. With two points or
  more the initialization completes. Mounting fails exactly when the data has one point.
\<close>

theorem chart_needs_two_points:
  "(length (data this_props) = 1 \<longrightarrow>
      componentDidMount date this_props this = Throw TypeError (mounted this)) \<and>
   (2 \<le> length (data this_props) \<longrightarrow>
      (\<exists>this'. componentDidMount date this_props this = Normal this' \<and>
               chartRangeWidth this' \<noteq> None \<and> dygraph this' \<noteq> None)) \<and>
   ((\<exists>exn this'. componentDidMount date this_props this = Throw exn this') \<longleftrightarrow>
      length (data this_props) = 1)"
proof -
  consider "length (data this_props) = 0" | "length (data this_props) = 1"
    | "2 \<le> length (data this_props)"
    by linarith
  then show ?thesis
  proof cases
    case 1
    with no_point_mounts [OF 1, of date this] show ?thesis by simp
  next
    case 2
    with one_point_throws [OF 2, of date this] show ?thesis by simp
  next
    case 3
    with two_points_initialize [OF 3, of date this] show ?thesis by auto
  qed
qed

text \<open>
A chart of one point and a chart of two.
\<close>

theorem chart_witness:
  "length (data one_point) = 1 \<and>
   componentDidMount (\<lambda>v. case v of Val ms \<Rightarrow> Some ms | _ \<Rightarrow> None) one_point constructed =
     Throw TypeError
       (constructed\<lparr>chartBusy := Some False, chartRange := Some (Lit 0, Lit 0),
                    chartRangeWidth := None, chartScrollLock := Some True\<rparr>) \<and>
   2 \<le> length (data two_points) \<and>
   (\<exists>this'. componentDidMount (\<lambda>v. case v of Val ms \<Rightarrow> Some ms | _ \<Rightarrow> None)
              two_points constructed = Normal this')"
proof -
  have one: "length (data one_point) = 1" and two: "2 \<le> length (data two_points)"
    by (simp_all add: one_point_def two_points_def)
  from chart_needs_two_points [of one_point "\<lambda>v. case v of Val ms \<Rightarrow> Some ms | _ \<Rightarrow> None"
      constructed]
    chart_needs_two_points [of two_points "\<lambda>v. case v of Val ms \<Rightarrow> Some ms | _ \<Rightarrow> None"
      constructed] one two
  show ?thesis
    by (auto simp: mounted_def)
qed

end
